theory Spec2Isabelle
  imports Complex_Main
begin

section \<open>Data received from the generation backend\<close>

text \<open>
  The second component of \<^verbatim>\<open>src/App.jsx\<close> (the one with the animated preview player) is
  embedded here. JavaScript numbers are idealised as reals; the cursor \<^verbatim>\<open>idx\<close> only
  ever holds integers and is an \<open>int\<close>. A numeric JSON field that may be missing is a
  \<open>jsnum\<close>: \<^verbatim>\<open>undefined\<close> (absent), \<^verbatim>\<open>null\<close>, or a number.
\<close>

datatype jsnum = Undefined | Null | Num real

record character =
  c_id :: string
  c_name :: string
  c_color :: int

record environment =
  e_id :: string
  e_name :: string

record appearance =
  ch_id :: string
  ch_emotion :: "string option"
  ch_dialogue :: "string option"

record transition =
  t_type :: "string option"
  t_duration :: jsnum

record scene =
  s_id :: string
  s_title :: string
  s_description :: string
  s_environmentId :: string
  s_transition :: "transition option"
  s_characters :: "appearance list"

record result =
  r_style :: string
  r_characters :: "character list"
  r_environments :: "environment list"
  r_scenes :: "scene list"

section \<open>Component state\<close>

text \<open>
  A pending \<^verbatim>\<open>setTimeout\<close>: its id, its delay, and the \<^verbatim>\<open>result\<close> that the
  \<^verbatim>\<open>onTick\<close> closure captured in the render that scheduled it.
\<close>

record timer =
  tm_id :: nat
  tm_delay :: real
  tm_result :: "result option"

text \<open>
  The \<^verbatim>\<open>useState\<close> cells of \<^verbatim>\<open>App\<close> that the player reads, the \<^verbatim>\<open>timerRef\<close> of
  \<^verbatim>\<open>useAutoAdvance\<close>, the timers of the runtime that have neither fired nor been
  cleared, whether the last run of the effect returned a cleanup function, and the id the
  runtime hands out next (timer ids are positive). The cells \<^verbatim>\<open>text\<close> and \<^verbatim>\<open>style\<close>
  only fill the body of the request and are left out.
\<close>

record app =
  pacing :: string
  result :: "result option"
  loading :: bool
  error :: string
  playing :: bool
  idx :: int
  timerRef :: "nat option"
  pending :: "timer list"
  cleanup :: bool
  next_id :: nat

definition init_state :: app where
  "init_state = \<lparr>pacing = ''normal'', result = None, loading = False, error = [],
     playing = False, idx = 0, timerRef = None, pending = [], cleanup = False, next_id = 1\<rparr>"

section \<open>Delay and transition profile\<close>

text \<open>\<^verbatim>\<open>v || d\<close> for a numeric field: \<^verbatim>\<open>undefined\<close>, \<^verbatim>\<open>null\<close> and \<^verbatim>\<open>0\<close> are falsy.\<close>

fun truthy :: "jsnum \<Rightarrow> bool" where
  "truthy Undefined = False"
| "truthy Null = False"
| "truthy (Num d) = (d \<noteq> 0)"

fun or_default :: "jsnum \<Rightarrow> real \<Rightarrow> real" where
  "or_default Undefined dflt = dflt"
| "or_default Null dflt = dflt"
| "or_default (Num d) dflt = (if d \<noteq> 0 then d else dflt)"

definition basePerSceneMs :: "app \<Rightarrow> real" where
  "basePerSceneMs s =
     (if pacing s = ''slow'' then 4000
      else if pacing s = ''fast'' then 1800
      else 2800)"

text \<open>\<^verbatim>\<open>result?.scenes[idx]\<close>: an index outside the array reads \<^verbatim>\<open>undefined\<close>.\<close>

definition currentScene :: "app \<Rightarrow> scene option" where
  "currentScene s =
     (case result s of
        None \<Rightarrow> None
      | Some r \<Rightarrow>
          if 0 \<le> idx s \<and> idx s < int (length (r_scenes r))
          then Some (r_scenes r ! nat (idx s)) else None)"

text \<open>\<^verbatim>\<open>currentScene?.transition?.duration\<close>\<close>

definition duration_of :: "scene option \<Rightarrow> jsnum" where
  "duration_of cur =
     (case cur of
        None \<Rightarrow> Undefined
      | Some sc \<Rightarrow> (case s_transition sc of None \<Rightarrow> Undefined | Some t \<Rightarrow> t_duration t))"

definition getDelayMs :: "app \<Rightarrow> real" where
  "getDelayMs s =
     (case currentScene s of
        None \<Rightarrow> 0
      | Some sc \<Rightarrow>
          let t = or_default (duration_of (Some sc)) 0.8 * 1000
          in basePerSceneMs s + t)"

datatype xval = XStr string | XNum real

text \<open>One phase of a motion profile; a property the object literal does not set is \<open>None\<close>.\<close>

record phase =
  p_x :: "xval option"
  p_scale :: "real option"
  p_opacity :: "real option"
  p_filter :: "string option"
  p_transition :: "real option"

record variants =
  v_initial :: phase
  v_animate :: phase
  v_exit :: phase

definition no_props :: phase where
  "no_props = \<lparr>p_x = None, p_scale = None, p_opacity = None, p_filter = None,
     p_transition = None\<rparr>"

definition getTransitionVariants :: "app \<Rightarrow> string option \<Rightarrow> variants" where
  "getTransitionVariants s t =
     (let common = or_default (duration_of (currentScene s)) 0.8 in
      if t = Some ''wipe'' then
        \<lparr>v_initial = no_props\<lparr>p_x := Some (XStr ''100%''), p_opacity := Some 1\<rparr>,
         v_animate = no_props\<lparr>p_x := Some (XNum 0), p_opacity := Some 1,
                       p_transition := Some common\<rparr>,
         v_exit = no_props\<lparr>p_x := Some (XStr ''-100%''), p_opacity := Some 1,
                       p_transition := Some common\<rparr>\<rparr>
      else if t = Some ''pan'' then
        \<lparr>v_initial = no_props\<lparr>p_scale := Some 1.1, p_x := Some (XNum 20),
                       p_opacity := Some 0.9\<rparr>,
         v_animate = no_props\<lparr>p_scale := Some 1, p_x := Some (XNum 0), p_opacity := Some 1,
                       p_transition := Some common\<rparr>,
         v_exit = no_props\<lparr>p_scale := Some 0.98, p_x := Some (XNum (- 15)),
                       p_opacity := Some 0.9, p_transition := Some common\<rparr>\<rparr>
      else if t = Some ''dolly'' then
        \<lparr>v_initial = no_props\<lparr>p_scale := Some 0.9, p_opacity := Some 0\<rparr>,
         v_animate = no_props\<lparr>p_scale := Some 1, p_opacity := Some 1,
                       p_transition := Some common\<rparr>,
         v_exit = no_props\<lparr>p_scale := Some 1.05, p_opacity := Some 0,
                       p_transition := Some common\<rparr>\<rparr>
      else if t = Some ''fade-through-black'' then
        \<lparr>v_initial = no_props\<lparr>p_opacity := Some 0, p_filter := Some ''brightness(0)''\<rparr>,
         v_animate = no_props\<lparr>p_opacity := Some 1, p_filter := Some ''brightness(1)'',
                       p_transition := Some common\<rparr>,
         v_exit = no_props\<lparr>p_opacity := Some 0, p_filter := Some ''brightness(0)'',
                       p_transition := Some common\<rparr>\<rparr>
      else
        \<lparr>v_initial = no_props\<lparr>p_opacity := Some 0\<rparr>,
         v_animate = no_props\<lparr>p_opacity := Some 1, p_transition := Some common\<rparr>,
         v_exit = no_props\<lparr>p_opacity := Some 0, p_transition := Some common\<rparr>\<rparr>)"

section \<open>Rendering\<close>

datatype js_error = TypeError

text \<open>\<^verbatim>\<open>a % b\<close> on integers: the remainder takes the sign of the dividend.\<close>

definition js_rem :: "int \<Rightarrow> int \<Rightarrow> int" where
  "js_rem a b = sgn a * (\<bar>a\<bar> mod \<bar>b\<bar>)"

text \<open>\<^verbatim>\<open>v && ...\<close> on an optional string: shown only when present and non-empty.\<close>

definition shown :: "string option \<Rightarrow> string option" where
  "shown v = (case v of None \<Rightarrow> None | Some str \<Rightarrow> if str = [] then None else Some str)"

fun traverse :: "('a \<Rightarrow> js_error + 'b) \<Rightarrow> 'a list \<Rightarrow> js_error + 'b list" where
  "traverse f [] = Inr []"
| "traverse f (a # as) =
     (case f a of
        Inl e \<Rightarrow> Inl e
      | Inr b \<Rightarrow> (case traverse f as of Inl e \<Rightarrow> Inl e | Inr bs \<Rightarrow> Inr (b # bs)))"

record card =
  card_key :: string
  card_hue :: int
  card_name :: string
  card_emotion :: "string option"
  card_dialogue :: "string option"

text \<open>
  The body of \<^verbatim>\<open>currentScene.characters.map\<close> in the preview player:
  \<^verbatim>\<open>base = result.characters.find(c => c.id === ch.id)\<close>, then \<^verbatim>\<open>base.color\<close> and
  \<^verbatim>\<open>base.name\<close> are read with no guard, which throws when \<^verbatim>\<open>base\<close> is \<^verbatim>\<open>undefined\<close>.
\<close>

definition playerCharacter :: "result \<Rightarrow> appearance \<Rightarrow> js_error + card" where
  "playerCharacter r ch =
     (case find (\<lambda>c. c_id c = ch_id ch) (r_characters r) of
        None \<Rightarrow> Inl TypeError
      | Some base \<Rightarrow>
          Inr \<lparr>card_key = ch_id ch, card_hue = js_rem (c_color base * 55) 360,
               card_name = c_name base, card_emotion = shown (ch_emotion ch),
               card_dialogue = shown (ch_dialogue ch)\<rparr>)"

record player_view =
  pv_key :: string
  pv_variants :: variants
  pv_environment :: "string option"
  pv_type :: "string option"
  pv_title :: string
  pv_description :: string
  pv_cards :: "card list"

text \<open>
  The preview player: nothing is drawn without a result or a current scene;
  \<^verbatim>\<open>currentScene.transition.type\<close> throws when the scene has no transition.
\<close>

definition renderPlayer :: "app \<Rightarrow> js_error + player_view option" where
  "renderPlayer s =
     (case result s of
        None \<Rightarrow> Inr None
      | Some r \<Rightarrow>
          (case currentScene s of
             None \<Rightarrow> Inr None
           | Some sc \<Rightarrow>
               (case s_transition sc of
                  None \<Rightarrow> Inl TypeError
                | Some t \<Rightarrow>
                    (case traverse (playerCharacter r) (s_characters sc) of
                       Inl e \<Rightarrow> Inl e
                     | Inr cards \<Rightarrow>
                         Inr (Some
                           \<lparr>pv_key = s_id sc,
                            pv_variants = getTransitionVariants s (t_type t),
                            pv_environment = map_option e_name
                              (find (\<lambda>e. e_id e = s_environmentId sc) (r_environments r)),
                            pv_type = t_type t,
                            pv_title = s_title sc,
                            pv_description = s_description sc,
                            pv_cards = cards\<rparr>)))))"

record list_item =
  li_key :: string
  li_name :: "string option"
  li_emotion :: "string option"
  li_dialogue :: "string option"

text \<open>
  The body of \<^verbatim>\<open>s.characters.map\<close> in the static scene list:
  \<^verbatim>\<open>result.characters.find(c => c.id===ch.id)?.name\<close>.
\<close>

definition listCharacter :: "result \<Rightarrow> appearance \<Rightarrow> list_item" where
  "listCharacter r ch =
     \<lparr>li_key = ch_id ch,
      li_name = map_option c_name (find (\<lambda>c. c_id c = ch_id ch) (r_characters r)),
      li_emotion = shown (ch_emotion ch),
      li_dialogue = shown (ch_dialogue ch)\<rparr>"

section \<open>Event handlers\<close>

datatype response =
    Ok result
  | NotOk nat "string option"
  | TransportError string

datatype action =
    Play | Pause | Next | Prev | Reset
  | Tick nat
  | SetPacing string
  | GenerateStart
  | GenerateDone response

definition digit_char :: "nat \<Rightarrow> char" where
  "digit_char d = ''0123456789'' ! d"

fun show_nat :: "nat \<Rightarrow> string" where
  "show_nat n = (if n < 10 then [digit_char n] else show_nat (n div 10) @ [digit_char (n mod 10)])"

text \<open>
  The message that reaches \<^verbatim>\<open>setError\<close>: \<^verbatim>\<open>data.detail || `Request failed: ${res.status}`\<close>
  for a response that is not ok, the message of the exception otherwise.
\<close>

definition error_message :: "response \<Rightarrow> string" where
  "error_message resp =
     (case resp of
        Ok _ \<Rightarrow> []
      | NotOk status detail \<Rightarrow>
          (case shown detail of
             Some d \<Rightarrow> d
           | None \<Rightarrow> ''Request failed: '' @ show_nat status)
      | TransportError msg \<Rightarrow> msg)"

definition resetPlayer :: "app \<Rightarrow> app" where
  "resetPlayer s = s\<lparr>idx := 0, playing := False\<rparr>"

text \<open>
  The callback given to \<^verbatim>\<open>useAutoAdvance\<close>; \<open>res\<close> is the \<^verbatim>\<open>result\<close> its closure
  captured. \<^verbatim>\<open>setPlaying(false)\<close> is called inside the updater of \<^verbatim>\<open>setIdx\<close>.
\<close>

definition onTick :: "result option \<Rightarrow> app \<Rightarrow> app" where
  "onTick res s =
     (let i = idx s; next = i + 1 in
      case res of
        None \<Rightarrow> s\<lparr>idx := 0\<rparr>
      | Some r \<Rightarrow>
          if next \<ge> int (length (r_scenes r)) then s\<lparr>playing := False\<rparr>
          else s\<lparr>idx := next\<rparr>)"

text \<open>
  The state updates of one event. A timer fires only while it is pending, and firing
  removes it; \<^verbatim>\<open>GenerateStart\<close> is \<^verbatim>\<open>generate\<close> up to its \<^verbatim>\<open>await\<close>,
  \<^verbatim>\<open>GenerateDone\<close> is the rest of it.
\<close>

definition handler :: "action \<Rightarrow> app \<Rightarrow> app" where
  "handler a s =
     (case a of
        Play \<Rightarrow> s\<lparr>playing := True\<rparr>
      | Pause \<Rightarrow> s\<lparr>playing := False\<rparr>
      | Prev \<Rightarrow> s\<lparr>idx := max 0 (idx s - 1)\<rparr>
      | Next \<Rightarrow>
          s\<lparr>idx := (case result s of
                      Some r \<Rightarrow> min (int (length (r_scenes r)) - 1) (idx s + 1)
                    | None \<Rightarrow> 0)\<rparr>
      | Reset \<Rightarrow> resetPlayer s
      | Tick t \<Rightarrow>
          (case find (\<lambda>tm. tm_id tm = t) (pending s) of
             None \<Rightarrow> s
           | Some tm \<Rightarrow>
               onTick (tm_result tm) (s\<lparr>pending := filter (\<lambda>p. tm_id p \<noteq> t) (pending s)\<rparr>))
      | SetPacing p \<Rightarrow> s\<lparr>pacing := p\<rparr>
      | GenerateStart \<Rightarrow> resetPlayer (s\<lparr>loading := True, error := [], result := None\<rparr>)
      | GenerateDone resp \<Rightarrow>
          (case resp of
             Ok data \<Rightarrow> s\<lparr>result := Some data, idx := 0, loading := False\<rparr>
           | _ \<Rightarrow> s\<lparr>error := error_message resp, loading := False\<rparr>))"

section \<open>The auto-advance effect\<close>

text \<open>\<^verbatim>\<open>timerRef.current && clearTimeout(timerRef.current)\<close>: an id of 0 is falsy.\<close>

definition clearRef :: "app \<Rightarrow> app" where
  "clearRef s =
     (case timerRef s of
        None \<Rightarrow> s
      | Some t \<Rightarrow>
          if t = 0 then s else s\<lparr>pending := filter (\<lambda>p. tm_id p \<noteq> t) (pending s)\<rparr>)"

definition run_cleanup :: "app \<Rightarrow> app" where
  "run_cleanup s = (if cleanup s then (clearRef s)\<lparr>cleanup := False\<rparr> else s)"

text \<open>
  The body of the effect in \<^verbatim>\<open>useAutoAdvance\<close>, with
  \<^verbatim>\<open>enabled = playing && !!result\<close>. It returns a cleanup only when it scheduled.
\<close>

definition run_effect :: "app \<Rightarrow> app" where
  "run_effect s =
     (if \<not> (playing s \<and> result s \<noteq> None) then s
      else
        let delay = getDelayMs s in
        if delay = 0 \<or> delay \<le> 0 then s
        else
          let s1 = clearRef s; t = next_id s1 in
          s1\<lparr>timerRef := Some t,
             pending := pending s1 @ [\<lparr>tm_id = t, tm_delay = delay, tm_result = result s\<rparr>],
             cleanup := True,
             next_id := Suc t\<rparr>)"

text \<open>
  The dependency array \<^verbatim>\<open>[playing, idx, result, basePerSceneMs]\<close>. A result parsed from a
  response is a new object, so it differs from every earlier one whatever it holds.
\<close>

definition deps :: "app \<Rightarrow> bool \<times> int \<times> result option \<times> real" where
  "deps s = (playing s, idx s, result s, basePerSceneMs s)"

fun fresh_result :: "action \<Rightarrow> bool" where
  "fresh_result (GenerateDone (Ok _)) = True"
| "fresh_result _ = False"

text \<open>
  One event: the handler's updates are applied as one batch; when a dependency changed,
  the previous cleanup runs and then the effect.
\<close>

definition step :: "action \<Rightarrow> app \<Rightarrow> app" where
  "step a s =
     (let s' = handler a s in
      if deps s' \<noteq> deps s \<or> fresh_result a then run_effect (run_cleanup s') else s')"

fun run :: "action list \<Rightarrow> app \<Rightarrow> app" where
  "run [] s = s"
| "run (a # as) s = run as (step a s)"

definition generate :: "response \<Rightarrow> app \<Rightarrow> app" where
  "generate resp s = step (GenerateDone resp) (step GenerateStart s)"

section \<open>Invariants of the player\<close>

text \<open>A response that makes \<^verbatim>\<open>generate\<close> take its \<^verbatim>\<open>catch\<close> branch.\<close>

fun failed :: "response \<Rightarrow> bool" where
  "failed (Ok _) = False"
| "failed (NotOk _ _) = True"
| "failed (TransportError _) = True"

text \<open>
  What holds of the pending timers between events: there is at most one, it is the one
  \<^verbatim>\<open>timerRef\<close> names, its cleanup is registered, auto-advance is on, and it was scheduled
  for the result and the delay of the current state. Ids handed out are positive and
  below the next one.
\<close>

definition timer_inv :: "app \<Rightarrow> bool" where
  "timer_inv s =
     (0 < next_id s \<and>
      (case timerRef s of None \<Rightarrow> True | Some t \<Rightarrow> t < next_id s) \<and>
      (case pending s of
         [] \<Rightarrow> True
       | [tm] \<Rightarrow>
           timerRef s = Some (tm_id tm) \<and> tm_id tm \<noteq> 0 \<and> cleanup s \<and> playing s \<and>
           result s \<noteq> None \<and> tm_result tm = result s \<and>
           tm_delay tm = getDelayMs s \<and> 0 < tm_delay tm
       | _ \<Rightarrow> False))"

text \<open>The part of \<open>timer_inv\<close> that every handler keeps, whatever it does to the cursor.\<close>

definition timers_tracked :: "app \<Rightarrow> bool" where
  "timers_tracked s =
     (0 < next_id s \<and>
      (case timerRef s of None \<Rightarrow> True | Some t \<Rightarrow> t < next_id s) \<and>
      (case pending s of
         [] \<Rightarrow> True
       | [tm] \<Rightarrow> timerRef s = Some (tm_id tm) \<and> tm_id tm \<noteq> 0 \<and> cleanup s
       | _ \<Rightarrow> False))"

text \<open>The cursor is an index of the installed sequence whenever that is not empty.\<close>

definition cursor_inv :: "app \<Rightarrow> bool" where
  "cursor_inv s =
     (case result s of
        None \<Rightarrow> True
      | Some r \<Rightarrow>
          r_scenes r = [] \<or> (0 \<le> idx s \<and> idx s < int (length (r_scenes r))))"

section \<open>Sample responses\<close>

definition mk_scene :: "string \<Rightarrow> string \<Rightarrow> jsnum \<Rightarrow> appearance list \<Rightarrow> scene" where
  "mk_scene i ty d chs =
     \<lparr>s_id = i, s_title = ''Title'', s_description = ''Text'', s_environmentId = ''env1'',
      s_transition = Some \<lparr>t_type = Some ty, t_duration = d\<rparr>, s_characters = chs\<rparr>"

definition alice :: character where
  "alice = \<lparr>c_id = ''c1'', c_name = ''Alice'', c_color = 3\<rparr>"

definition forest :: environment where
  "forest = \<lparr>e_id = ''env1'', e_name = ''Forest''\<rparr>"

definition appears :: "string \<Rightarrow> appearance" where
  "appears i = \<lparr>ch_id = i, ch_emotion = Some ''calm'', ch_dialogue = None\<rparr>"

definition three_scenes :: result where
  "three_scenes =
     \<lparr>r_style = ''storybook'', r_characters = [alice], r_environments = [forest],
      r_scenes = [mk_scene ''s1'' ''crossfade'' (Num 0.8) [appears ''c1''],
                  mk_scene ''s2'' ''wipe'' (Num 1.2) [appears ''c1''],
                  mk_scene ''s3'' ''pan'' (Num 0.8) []]\<rparr>"

definition one_scene :: result where
  "one_scene =
     \<lparr>r_style = ''noir'', r_characters = [alice], r_environments = [forest],
      r_scenes = [mk_scene ''s1'' ''swirl'' (Num 0) [appears ''c1'']]\<rparr>"

definition dangling :: result where
  "dangling =
     \<lparr>r_style = ''anime'', r_characters = [alice], r_environments = [forest],
      r_scenes = [mk_scene ''s1'' ''dolly'' (Num 0.8) [appears ''c1'', appears ''c9'']]\<rparr>"

definition bare_scene :: result where
  "bare_scene =
     \<lparr>r_style = ''watercolor'', r_characters = [], r_environments = [],
      r_scenes = [mk_scene ''s1'' ''wipe'' Undefined [], mk_scene ''s2'' ''wipe'' Null []]\<rparr>"

definition install :: "result \<Rightarrow> action list" where
  "install r = [GenerateStart, GenerateDone (Ok r)]"

section \<open>Evaluation and preservation lemmas\<close>

lemmas ev = step_def handler_def run_effect_def run_cleanup_def clearRef_def deps_def
  getDelayMs_def currentScene_def duration_of_def basePerSceneMs_def onTick_def resetPlayer_def
  init_state_def install_def three_scenes_def one_scene_def dangling_def bare_scene_def
  mk_scene_def Let_def

lemma timer_inv_tracked: "timer_inv s \<Longrightarrow> timers_tracked s"
  by (auto simp: timer_inv_def timers_tracked_def split: list.splits option.splits)

lemma cleanup_empties:
  assumes "timers_tracked s"
  shows "pending (run_cleanup s) = []"
  using assms
  by (auto simp: timers_tracked_def run_cleanup_def clearRef_def split: list.splits option.splits)

lemma cleanup_keeps:
  "next_id (run_cleanup s) = next_id s" "timerRef (run_cleanup s) = timerRef s"
  "playing (run_cleanup s) = playing s" "result (run_cleanup s) = result s"
  "idx (run_cleanup s) = idx s" "pacing (run_cleanup s) = pacing s"
  "loading (run_cleanup s) = loading s" "error (run_cleanup s) = error s"
  "getDelayMs (run_cleanup s) = getDelayMs s"
  by (auto simp: run_cleanup_def clearRef_def getDelayMs_def currentScene_def basePerSceneMs_def
      split: option.splits)

lemma effect_on_empty:
  assumes "pending s = []" and "0 < next_id s"
    and "case timerRef s of None \<Rightarrow> True | Some t \<Rightarrow> t < next_id s"
  shows "timer_inv (run_effect s)"
  using assms
  by (auto simp: timer_inv_def run_effect_def clearRef_def Let_def getDelayMs_def currentScene_def
      basePerSceneMs_def split: option.splits)

lemma effect_establishes: "timers_tracked s \<Longrightarrow> timer_inv (run_effect (run_cleanup s))"
proof -
  assume t: "timers_tracked s"
  have "pending (run_cleanup s) = []" using t by (rule cleanup_empties)
  moreover have "0 < next_id (run_cleanup s)"
    using t by (simp add: cleanup_keeps timers_tracked_def)
  moreover have "case timerRef (run_cleanup s) of None \<Rightarrow> True
      | Some t \<Rightarrow> t < next_id (run_cleanup s)"
    using t by (auto simp: cleanup_keeps timers_tracked_def split: option.splits)
  ultimately show ?thesis by (rule effect_on_empty)
qed

lemma handler_tracked: "timer_inv s \<Longrightarrow> timers_tracked (handler a s)"
  by (cases a)
    (auto simp: timer_inv_def timers_tracked_def handler_def onTick_def resetPlayer_def Let_def
      split: list.splits option.splits response.splits if_splits)

lemma handler_same_deps:
  "timer_inv s \<Longrightarrow> deps (handler a s) = deps s \<Longrightarrow> timer_inv (handler a s)"
  by (cases a)
    (auto simp: timer_inv_def deps_def handler_def onTick_def resetPlayer_def Let_def
      getDelayMs_def currentScene_def basePerSceneMs_def
      split: list.splits option.splits response.splits if_splits)

lemma timer_inv_step: "timer_inv s \<Longrightarrow> timer_inv (step a s)"
  by (simp add: step_def Let_def handler_same_deps effect_establishes handler_tracked)

lemma cursor_inv_effect: "cursor_inv (run_effect (run_cleanup s)) = cursor_inv s"
  by (auto simp: cursor_inv_def run_effect_def run_cleanup_def clearRef_def Let_def
      split: option.splits)

lemma cursor_inv_handler: "timer_inv s \<Longrightarrow> cursor_inv s \<Longrightarrow> cursor_inv (handler a s)"
  by (cases a)
    (auto simp: timer_inv_def cursor_inv_def handler_def onTick_def resetPlayer_def Let_def
      split: list.splits option.splits response.splits if_splits)

lemma cursor_inv_step: "timer_inv s \<Longrightarrow> cursor_inv s \<Longrightarrow> cursor_inv (step a s)"
  by (simp add: step_def Let_def cursor_inv_effect cursor_inv_handler)

lemma inv_run:
  "timer_inv s \<Longrightarrow> cursor_inv s \<Longrightarrow> timer_inv (run as s) \<and> cursor_inv (run as s)"
  by (induction as arbitrary: s) (simp_all add: timer_inv_step cursor_inv_step)

lemma inv_init: "timer_inv init_state \<and> cursor_inv init_state"
  by (simp add: timer_inv_def cursor_inv_def init_state_def)

lemma inv_reachable: "timer_inv (run as init_state) \<and> cursor_inv (run as init_state)"
  using inv_run [of init_state as] inv_init by simp

lemma effect_pending:
  assumes "pending s = []"
  shows "pending (run_effect s) =
     (if playing s \<and> result s \<noteq> None \<and> 0 < getDelayMs s
      then [\<lparr>tm_id = next_id s, tm_delay = getDelayMs s, tm_result = result s\<rparr>] else [])"
  using assms by (auto simp: run_effect_def clearRef_def Let_def split: option.splits)

lemma handler_next_id: "next_id (handler a s) = next_id s"
  by (cases a)
    (auto simp: handler_def onTick_def resetPlayer_def Let_def split: option.splits response.splits)

lemma effect_keeps:
  "playing (run_effect s) = playing s" "result (run_effect s) = result s"
  "idx (run_effect s) = idx s" "pacing (run_effect s) = pacing s"
  "loading (run_effect s) = loading s" "error (run_effect s) = error s"
  by (auto simp: run_effect_def clearRef_def Let_def split: option.splits)

lemma step_keeps:
  "playing (step a s) = playing (handler a s)" "result (step a s) = result (handler a s)"
  "idx (step a s) = idx (handler a s)" "pacing (step a s) = pacing (handler a s)"
  "loading (step a s) = loading (handler a s)" "error (step a s) = error (handler a s)"
  by (simp_all add: step_def Let_def effect_keeps cleanup_keeps)

lemma step_pending_changed:
  assumes "timer_inv s" and "deps (handler a s) \<noteq> deps s \<or> fresh_result a"
  shows "pending (step a s) =
     (if playing (handler a s) \<and> result (handler a s) \<noteq> None \<and> 0 < getDelayMs (handler a s)
      then [\<lparr>tm_id = next_id s, tm_delay = getDelayMs (handler a s),
             tm_result = result (handler a s)\<rparr>] else [])"
proof -
  have e: "pending (run_cleanup (handler a s)) = []"
    using assms(1) by (simp add: handler_tracked cleanup_empties)
  have "step a s = run_effect (run_cleanup (handler a s))"
    using assms(2) by (simp add: step_def Let_def)
  then show ?thesis
    by (simp add: effect_pending [OF e] cleanup_keeps handler_next_id)
qed

lemma step_same_deps:
  assumes "deps (handler a s) = deps s" and "\<not> fresh_result a"
  shows "step a s = handler a s"
  using assms by (simp add: step_def Let_def)

section \<open>The cursor\<close>

text \<open>
  C3. Start from the mounted component and let any finite list of events happen: play,
  pause, next, previous, reset, a timer firing, a change of pacing, the start of a
  generation and its success or failure (installing a sequence is the start followed by
  the success). Whenever the installed sequence then has \<open>L \<ge> 1\<close> scenes, the cursor
  \<^verbatim>\<open>idx\<close> is in \<open>[0, L-1]\<close>.
\<close>

theorem cursor_in_bounds:
  assumes "result (run as init_state) = Some r" and "r_scenes r \<noteq> []"
  shows "0 \<le> idx (run as init_state) \<and> idx (run as init_state) < int (length (r_scenes r))"
proof -
  have "cursor_inv (run as init_state)"
    by (simp add: inv_reachable)
  with assms show ?thesis by (simp add: cursor_inv_def)
qed

theorem cursor_in_bounds_witness:
  "result (run (install three_scenes @ [Play, Next, Next, Next, Tick 4, Prev]) init_state)
     = Some three_scenes \<and>
   r_scenes three_scenes \<noteq> [] \<and>
   idx (run (install three_scenes @ [Play, Next, Next, Next, Tick 4, Prev]) init_state) = 1 \<and>
   0 \<le> idx (run (install three_scenes @ [Play, Next, Next, Next, Tick 4, Prev]) init_state) \<and>
   idx (run (install three_scenes @ [Play, Next, Next, Next, Tick 4, Prev]) init_state)
     < int (length (r_scenes three_scenes))"
proof -
  let ?as = "install three_scenes @ [Play, Next, Next, Next, Tick 4, Prev]"
  have r: "result (run ?as init_state) = Some three_scenes" by (simp add: ev)
  have n: "r_scenes three_scenes \<noteq> []" by (simp add: three_scenes_def)
  have i: "idx (run ?as init_state) = 1" by (simp add: ev)
  from cursor_in_bounds [OF r n] r n i show ?thesis by simp
qed

text \<open>
  C4. A timer that fires while the cursor is at the last index \<open>L-1\<close> turns
  \<^verbatim>\<open>playing\<close> off and leaves the cursor where it is; nothing is scheduled afterwards,
  so the sequence does not start again from 0. The timer is the pending one and its
  callback sees the installed result.
\<close>

theorem tick_at_last_stops:
  assumes "result s = Some r" and "idx s = int (length (r_scenes r)) - 1"
    and "pending s = [tm]" and "tm_result tm = result s"
  shows "playing (step (Tick (tm_id tm)) s) = False \<and>
         idx (step (Tick (tm_id tm)) s) = idx s \<and>
         pending (step (Tick (tm_id tm)) s) = []"
proof -
  let ?h = "handler (Tick (tm_id tm)) s"
  have h: "?h = s\<lparr>pending := [], playing := False\<rparr>"
    using assms by (simp add: handler_def onTick_def Let_def)
  have p: "pending (step (Tick (tm_id tm)) s) = []"
    by (simp add: step_def Let_def h run_effect_def run_cleanup_def clearRef_def
        split: option.splits)
  show ?thesis by (simp add: step_keeps h p)
qed

theorem tick_at_last_stops_witness:
  "result (run (install one_scene @ [Play]) init_state) = Some one_scene \<and>
   idx (run (install one_scene @ [Play]) init_state) = int (length (r_scenes one_scene)) - 1 \<and>
   pending (run (install one_scene @ [Play]) init_state) =
     [\<lparr>tm_id = 1, tm_delay = 3600, tm_result = Some one_scene\<rparr>] \<and>
   playing (run (install one_scene @ [Play]) init_state) = True \<and>
   playing (step (Tick 1) (run (install one_scene @ [Play]) init_state)) = False \<and>
   idx (step (Tick 1) (run (install one_scene @ [Play]) init_state)) = 0 \<and>
   pending (step (Tick 1) (run (install one_scene @ [Play]) init_state)) = [] \<and>
   result (run (install three_scenes @ [Next, Next, Play]) init_state) = Some three_scenes \<and>
   idx (run (install three_scenes @ [Next, Next, Play]) init_state)
     = int (length (r_scenes three_scenes)) - 1 \<and>
   idx (run (install three_scenes @ [Next, Next, Play]) init_state) = 2 \<and>
   pending (run (install three_scenes @ [Next, Next, Play]) init_state) =
     [\<lparr>tm_id = 1, tm_delay = 3600, tm_result = Some three_scenes\<rparr>] \<and>
   playing (run (install three_scenes @ [Next, Next, Play]) init_state) = True \<and>
   playing (step (Tick 1) (run (install three_scenes @ [Next, Next, Play]) init_state))
     = False \<and>
   idx (step (Tick 1) (run (install three_scenes @ [Next, Next, Play]) init_state)) = 2 \<and>
   pending (step (Tick 1) (run (install three_scenes @ [Next, Next, Play]) init_state)) = []"
proof -
  let ?s = "run (install one_scene @ [Play]) init_state"
  let ?tm = "\<lparr>tm_id = 1, tm_delay = 3600, tm_result = Some one_scene\<rparr>"
  have r: "result ?s = Some one_scene" by (simp add: ev)
  have i: "idx ?s = int (length (r_scenes one_scene)) - 1" by (simp add: ev)
  have i0: "idx ?s = 0" by (simp add: ev)
  have p: "pending ?s = [?tm]" by (simp add: ev)
  have c: "tm_result ?tm = result ?s" by (simp add: r)
  have pl: "playing ?s = True" by (simp add: ev)
  from tick_at_last_stops [OF r i p c] r i i0 p pl
  have one: "result ?s = Some one_scene \<and>
      idx ?s = int (length (r_scenes one_scene)) - 1 \<and>
      pending ?s = [?tm] \<and> playing ?s = True \<and>
      playing (step (Tick 1) ?s) = False \<and> idx (step (Tick 1) ?s) = 0 \<and>
      pending (step (Tick 1) ?s) = []"
    by simp
  let ?u = "run (install three_scenes @ [Next, Next, Play]) init_state"
  let ?tu = "\<lparr>tm_id = 1, tm_delay = 3600, tm_result = Some three_scenes\<rparr>"
  have ur: "result ?u = Some three_scenes" by (simp add: ev)
  have ui: "idx ?u = int (length (r_scenes three_scenes)) - 1" by (simp add: ev)
  have u2: "idx ?u = 2" by (simp add: ev)
  have up: "pending ?u = [?tu]" by (simp add: ev)
  have uc: "tm_result ?tu = result ?u" by (simp add: ur)
  have ul: "playing ?u = True" by (simp add: ev)
  from tick_at_last_stops [OF ur ui up uc] u2
  have three: "playing (step (Tick 1) ?u) = False \<and> idx (step (Tick 1) ?u) = 2 \<and>
      pending (step (Tick 1) ?u) = []"
    by simp
  show ?thesis using one ur ui u2 up ul three by blast
qed

section \<open>Delay\<close>

text \<open>
  C5. The base dwell time is 4000 ms for slow, 2800 ms for normal and 1800 ms for fast
  pacing. For a current scene whose transition duration is a number \<open>d\<close> (the data model
  takes it positive; any \<open>d \<noteq> 0\<close> will do) the delay is the base plus \<open>1000 * d\<close>; a
  scene with no duration gets the base plus 800 ms. With three scenes of 0.8 s, 1.2 s and
  0.8 s at normal pacing, play schedules 3600 ms, the next timer 4000 ms, the next 3600 ms,
  and the last tick stops at the third scene.
\<close>

theorem delay_formula:
  "(pacing s = ''slow'' \<longrightarrow> basePerSceneMs s = 4000) \<and>
   (pacing s = ''normal'' \<longrightarrow> basePerSceneMs s = 2800) \<and>
   (pacing s = ''fast'' \<longrightarrow> basePerSceneMs s = 1800) \<and>
   (currentScene s = Some sc \<and> duration_of (Some sc) = Num d \<and> d \<noteq> 0 \<longrightarrow>
      getDelayMs s = basePerSceneMs s + 1000 * d) \<and>
   (currentScene s = Some sc \<and> duration_of (Some sc) = Undefined \<longrightarrow>
      getDelayMs s = basePerSceneMs s + 800) \<and>
   map tm_delay (pending (run (install three_scenes @ [Play]) init_state)) = [3600] \<and>
   map tm_delay (pending (run (install three_scenes @ [Play, Tick 1]) init_state)) = [4000] \<and>
   map tm_delay (pending (run (install three_scenes @ [Play, Tick 1, Tick 2]) init_state))
     = [3600] \<and>
   pending (run (install three_scenes @ [Play, Tick 1, Tick 2, Tick 3]) init_state) = [] \<and>
   playing (run (install three_scenes @ [Play, Tick 1, Tick 2, Tick 3]) init_state) = False \<and>
   idx (run (install three_scenes @ [Play, Tick 1, Tick 2, Tick 3]) init_state) = 2"
proof -
  have a: "map tm_delay (pending (run (install three_scenes @ [Play]) init_state)) = [3600]"
    by (simp add: ev)
  have b: "map tm_delay (pending (run (install three_scenes @ [Play, Tick 1]) init_state))
     = [4000]"
    by (simp add: ev)
  have c: "map tm_delay (pending (run (install three_scenes @ [Play, Tick 1, Tick 2])
     init_state)) = [3600]"
    by (simp add: ev)
  have f: "pending (run (install three_scenes @ [Play, Tick 1, Tick 2, Tick 3]) init_state) = []"
    by (simp add: ev)
  have g: "playing (run (install three_scenes @ [Play, Tick 1, Tick 2, Tick 3]) init_state)
     = False"
    by (simp add: ev)
  have h: "idx (run (install three_scenes @ [Play, Tick 1, Tick 2, Tick 3]) init_state) = 2"
    by (simp add: ev)
  have d: "currentScene s = Some sc \<and> duration_of (Some sc) = Num d \<and> d \<noteq> 0 \<longrightarrow>
      getDelayMs s = basePerSceneMs s + 1000 * d"
    by (simp add: getDelayMs_def)
  have e: "currentScene s = Some sc \<and> duration_of (Some sc) = Undefined \<longrightarrow>
      getDelayMs s = basePerSceneMs s + 800"
    by (simp add: getDelayMs_def)
  show ?thesis using a b c d e f g h by (simp add: basePerSceneMs_def)
qed

theorem delay_formula_witness:
  "pacing (run (install three_scenes @ [Next]) init_state) = ''normal'' \<and>
   currentScene (run (install three_scenes @ [Next]) init_state)
     = Some (mk_scene ''s2'' ''wipe'' (Num 1.2) [appears ''c1'']) \<and>
   duration_of (Some (mk_scene ''s2'' ''wipe'' (Num 1.2) [appears ''c1''])) = Num 1.2 \<and>
   (1.2 :: real) \<noteq> 0 \<and>
   getDelayMs (run (install three_scenes @ [Next]) init_state) = 4000 \<and>
   pacing (run (SetPacing ''slow'' # install bare_scene) init_state) = ''slow'' \<and>
   currentScene (run (SetPacing ''slow'' # install bare_scene) init_state)
     = Some (mk_scene ''s1'' ''wipe'' Undefined []) \<and>
   duration_of (Some (mk_scene ''s1'' ''wipe'' Undefined [])) = Undefined \<and>
   getDelayMs (run (SetPacing ''slow'' # install bare_scene) init_state) = 4800 \<and>
   pacing (run (SetPacing ''fast'' # install three_scenes) init_state) = ''fast'' \<and>
   getDelayMs (run (SetPacing ''fast'' # install three_scenes) init_state) = 2600"
proof -
  let ?n = "run (install three_scenes @ [Next]) init_state"
  let ?sc2 = "mk_scene ''s2'' ''wipe'' (Num 1.2) [appears ''c1'']"
  let ?s = "run (SetPacing ''slow'' # install bare_scene) init_state"
  let ?sc1 = "mk_scene ''s1'' ''wipe'' Undefined []"
  let ?f = "run (SetPacing ''fast'' # install three_scenes) init_state"
  let ?sc0 = "mk_scene ''s1'' ''crossfade'' (Num 0.8) [appears ''c1'']"
  have n1: "pacing ?n = ''normal''" by (simp add: ev)
  have n2: "currentScene ?n = Some ?sc2" by (simp add: ev)
  have n3: "duration_of (Some ?sc2) = Num 1.2" by (simp add: duration_of_def mk_scene_def)
  have s1: "pacing ?s = ''slow''" by (simp add: ev)
  have s2: "currentScene ?s = Some ?sc1" by (simp add: ev)
  have s3: "duration_of (Some ?sc1) = Undefined" by (simp add: duration_of_def mk_scene_def)
  have f1: "pacing ?f = ''fast''" by (simp add: ev)
  have f2: "currentScene ?f = Some ?sc0" by (simp add: ev)
  have f3: "duration_of (Some ?sc0) = Num 0.8" by (simp add: duration_of_def mk_scene_def)
  from delay_formula [of ?n ?sc2 "1.2"] n1 n2 n3
  have n4: "getDelayMs ?n = 4000" by simp
  from delay_formula [of ?s ?sc1 "1"] s1 s2 s3
  have s4: "getDelayMs ?s = 4800" by simp
  from delay_formula [of ?f ?sc0 "0.8"] f1 f2 f3
  have f4: "getDelayMs ?f = 2600" by simp
  show ?thesis using n1 n2 n3 n4 s1 s2 s3 s4 f1 f4 by simp
qed

section \<open>Transition profiles\<close>

text \<open>
  C9. The motion profile depends on the transition type and the duration only: every type
  other than wipe, pan, dolly and fade-through-black gives the crossfade profile; the
  initial phase, and the animate and exit phases apart from their duration, are the same
  in every state; the duration of both phases is the current scene's own duration (0.8 s
  where that is falsy); and the five known types give five different profiles. Each of
  crossfade, wipe, pan, dolly and fade-through-black gives the preset of its
  \<^verbatim>\<open>case\<close>, spelled out property by property for the three phases.
\<close>

theorem transition_profile_selection:
  "(t \<notin> {Some ''wipe'', Some ''pan'', Some ''dolly'', Some ''fade-through-black''} \<longrightarrow>
      getTransitionVariants s t = getTransitionVariants s (Some ''crossfade'')) \<and>
   getTransitionVariants s (Some ''crossfade'') =
     \<lparr>v_initial = no_props\<lparr>p_opacity := Some 0\<rparr>,
      v_animate = no_props\<lparr>p_opacity := Some 1,
        p_transition := Some (or_default (duration_of (currentScene s)) 0.8)\<rparr>,
      v_exit = no_props\<lparr>p_opacity := Some 0,
        p_transition := Some (or_default (duration_of (currentScene s)) 0.8)\<rparr>\<rparr> \<and>
   (duration_of (currentScene s) = duration_of (currentScene s') \<longrightarrow>
      getTransitionVariants s t = getTransitionVariants s' t) \<and>
   v_initial (getTransitionVariants s t) = v_initial (getTransitionVariants s' t) \<and>
   (v_animate (getTransitionVariants s t))\<lparr>p_transition := None\<rparr>
     = (v_animate (getTransitionVariants s' t))\<lparr>p_transition := None\<rparr> \<and>
   (v_exit (getTransitionVariants s t))\<lparr>p_transition := None\<rparr>
     = (v_exit (getTransitionVariants s' t))\<lparr>p_transition := None\<rparr> \<and>
   p_transition (v_animate (getTransitionVariants s t))
     = Some (or_default (duration_of (currentScene s)) 0.8) \<and>
   p_transition (v_exit (getTransitionVariants s t))
     = Some (or_default (duration_of (currentScene s)) 0.8) \<and>
   (duration_of (currentScene s) = Num d \<and> d \<noteq> 0 \<longrightarrow>
      p_transition (v_animate (getTransitionVariants s t)) = Some d \<and>
      p_transition (v_exit (getTransitionVariants s t)) = Some d) \<and>
   distinct (map (\<lambda>ty. v_initial (getTransitionVariants s (Some ty)))
     [''crossfade'', ''wipe'', ''pan'', ''dolly'', ''fade-through-black'']) \<and>
   getTransitionVariants s (Some ''wipe'') =
     \<lparr>v_initial = \<lparr>p_x = Some (XStr ''100%''), p_scale = None, p_opacity = Some 1,
        p_filter = None, p_transition = None\<rparr>,
      v_animate = \<lparr>p_x = Some (XNum 0), p_scale = None, p_opacity = Some 1,
        p_filter = None, p_transition = Some (or_default (duration_of (currentScene s)) 0.8)\<rparr>,
      v_exit = \<lparr>p_x = Some (XStr ''-100%''), p_scale = None, p_opacity = Some 1,
        p_filter = None, p_transition = Some (or_default (duration_of (currentScene s)) 0.8)\<rparr>\<rparr> \<and>
   getTransitionVariants s (Some ''pan'') =
     \<lparr>v_initial = \<lparr>p_x = Some (XNum 20), p_scale = Some 1.1, p_opacity = Some 0.9,
        p_filter = None, p_transition = None\<rparr>,
      v_animate = \<lparr>p_x = Some (XNum 0), p_scale = Some 1, p_opacity = Some 1,
        p_filter = None, p_transition = Some (or_default (duration_of (currentScene s)) 0.8)\<rparr>,
      v_exit = \<lparr>p_x = Some (XNum (- 15)), p_scale = Some 0.98, p_opacity = Some 0.9,
        p_filter = None, p_transition = Some (or_default (duration_of (currentScene s)) 0.8)\<rparr>\<rparr> \<and>
   getTransitionVariants s (Some ''dolly'') =
     \<lparr>v_initial = \<lparr>p_x = None, p_scale = Some 0.9, p_opacity = Some 0,
        p_filter = None, p_transition = None\<rparr>,
      v_animate = \<lparr>p_x = None, p_scale = Some 1, p_opacity = Some 1,
        p_filter = None, p_transition = Some (or_default (duration_of (currentScene s)) 0.8)\<rparr>,
      v_exit = \<lparr>p_x = None, p_scale = Some 1.05, p_opacity = Some 0,
        p_filter = None, p_transition = Some (or_default (duration_of (currentScene s)) 0.8)\<rparr>\<rparr> \<and>
   getTransitionVariants s (Some ''fade-through-black'') =
     \<lparr>v_initial = \<lparr>p_x = None, p_scale = None, p_opacity = Some 0,
        p_filter = Some ''brightness(0)'', p_transition = None\<rparr>,
      v_animate = \<lparr>p_x = None, p_scale = None, p_opacity = Some 1,
        p_filter = Some ''brightness(1)'', p_transition = Some (or_default (duration_of (currentScene s)) 0.8)\<rparr>,
      v_exit = \<lparr>p_x = None, p_scale = None, p_opacity = Some 0,
        p_filter = Some ''brightness(0)'', p_transition = Some (or_default (duration_of (currentScene s)) 0.8)\<rparr>\<rparr>"
proof -
  have fallback: "t \<notin> {Some ''wipe'', Some ''pan'', Some ''dolly'', Some ''fade-through-black''}
      \<longrightarrow> getTransitionVariants s t = getTransitionVariants s (Some ''crossfade'')"
    by (simp add: getTransitionVariants_def Let_def)
  have cross: "getTransitionVariants s (Some ''crossfade'') =
     \<lparr>v_initial = no_props\<lparr>p_opacity := Some 0\<rparr>,
      v_animate = no_props\<lparr>p_opacity := Some 1,
        p_transition := Some (or_default (duration_of (currentScene s)) 0.8)\<rparr>,
      v_exit = no_props\<lparr>p_opacity := Some 0,
        p_transition := Some (or_default (duration_of (currentScene s)) 0.8)\<rparr>\<rparr>"
    by (simp add: getTransitionVariants_def Let_def)
  have pure: "duration_of (currentScene s) = duration_of (currentScene s') \<longrightarrow>
      getTransitionVariants s t = getTransitionVariants s' t"
    by (simp add: getTransitionVariants_def Let_def)
  have ini: "v_initial (getTransitionVariants s t) = v_initial (getTransitionVariants s' t)"
    by (simp add: getTransitionVariants_def Let_def)
  have ani: "(v_animate (getTransitionVariants s t))\<lparr>p_transition := None\<rparr>
     = (v_animate (getTransitionVariants s' t))\<lparr>p_transition := None\<rparr>"
    by (simp add: getTransitionVariants_def Let_def)
  have exi: "(v_exit (getTransitionVariants s t))\<lparr>p_transition := None\<rparr>
     = (v_exit (getTransitionVariants s' t))\<lparr>p_transition := None\<rparr>"
    by (simp add: getTransitionVariants_def Let_def)
  have da: "p_transition (v_animate (getTransitionVariants s t))
     = Some (or_default (duration_of (currentScene s)) 0.8)"
    by (simp add: getTransitionVariants_def Let_def)
  have de: "p_transition (v_exit (getTransitionVariants s t))
     = Some (or_default (duration_of (currentScene s)) 0.8)"
    by (simp add: getTransitionVariants_def Let_def)
  have own: "duration_of (currentScene s) = Num d \<and> d \<noteq> 0 \<longrightarrow>
      p_transition (v_animate (getTransitionVariants s t)) = Some d \<and>
      p_transition (v_exit (getTransitionVariants s t)) = Some d"
    by (simp add: da de)
  have dis: "distinct (map (\<lambda>ty. v_initial (getTransitionVariants s (Some ty)))
     [''crossfade'', ''wipe'', ''pan'', ''dolly'', ''fade-through-black''])"
    by (simp add: getTransitionVariants_def Let_def no_props_def)
  have wipe: "getTransitionVariants s (Some ''wipe'') =
     \<lparr>v_initial = \<lparr>p_x = Some (XStr ''100%''), p_scale = None, p_opacity = Some 1,
        p_filter = None, p_transition = None\<rparr>,
      v_animate = \<lparr>p_x = Some (XNum 0), p_scale = None, p_opacity = Some 1,
        p_filter = None, p_transition = Some (or_default (duration_of (currentScene s)) 0.8)\<rparr>,
      v_exit = \<lparr>p_x = Some (XStr ''-100%''), p_scale = None, p_opacity = Some 1,
        p_filter = None, p_transition = Some (or_default (duration_of (currentScene s)) 0.8)\<rparr>\<rparr>"
    by (simp add: getTransitionVariants_def Let_def no_props_def)
  have pan: "getTransitionVariants s (Some ''pan'') =
     \<lparr>v_initial = \<lparr>p_x = Some (XNum 20), p_scale = Some 1.1, p_opacity = Some 0.9,
        p_filter = None, p_transition = None\<rparr>,
      v_animate = \<lparr>p_x = Some (XNum 0), p_scale = Some 1, p_opacity = Some 1,
        p_filter = None, p_transition = Some (or_default (duration_of (currentScene s)) 0.8)\<rparr>,
      v_exit = \<lparr>p_x = Some (XNum (- 15)), p_scale = Some 0.98, p_opacity = Some 0.9,
        p_filter = None, p_transition = Some (or_default (duration_of (currentScene s)) 0.8)\<rparr>\<rparr>"
    by (simp add: getTransitionVariants_def Let_def no_props_def)
  have dolly: "getTransitionVariants s (Some ''dolly'') =
     \<lparr>v_initial = \<lparr>p_x = None, p_scale = Some 0.9, p_opacity = Some 0,
        p_filter = None, p_transition = None\<rparr>,
      v_animate = \<lparr>p_x = None, p_scale = Some 1, p_opacity = Some 1,
        p_filter = None, p_transition = Some (or_default (duration_of (currentScene s)) 0.8)\<rparr>,
      v_exit = \<lparr>p_x = None, p_scale = Some 1.05, p_opacity = Some 0,
        p_filter = None, p_transition = Some (or_default (duration_of (currentScene s)) 0.8)\<rparr>\<rparr>"
    by (simp add: getTransitionVariants_def Let_def no_props_def)
  have ftb: "getTransitionVariants s (Some ''fade-through-black'') =
     \<lparr>v_initial = \<lparr>p_x = None, p_scale = None, p_opacity = Some 0,
        p_filter = Some ''brightness(0)'', p_transition = None\<rparr>,
      v_animate = \<lparr>p_x = None, p_scale = None, p_opacity = Some 1,
        p_filter = Some ''brightness(1)'', p_transition = Some (or_default (duration_of (currentScene s)) 0.8)\<rparr>,
      v_exit = \<lparr>p_x = None, p_scale = None, p_opacity = Some 0,
        p_filter = Some ''brightness(0)'', p_transition = Some (or_default (duration_of (currentScene s)) 0.8)\<rparr>\<rparr>"
    by (simp add: getTransitionVariants_def Let_def no_props_def)
  show ?thesis
    using fallback cross pure ini ani exi da de own dis wipe pan dolly ftb by blast
qed

theorem transition_profile_selection_witness:
  "Some ''swirl'' \<notin> {Some ''wipe'', Some ''pan'', Some ''dolly'', Some ''fade-through-black''} \<and>
   duration_of (currentScene (run (install three_scenes @ [Next]) init_state)) = Num 1.2 \<and>
   (1.2 :: real) \<noteq> 0 \<and>
   getTransitionVariants (run (install three_scenes @ [Next]) init_state) (Some ''swirl'') =
     \<lparr>v_initial = no_props\<lparr>p_opacity := Some 0\<rparr>,
      v_animate = no_props\<lparr>p_opacity := Some 1, p_transition := Some 1.2\<rparr>,
      v_exit = no_props\<lparr>p_opacity := Some 0, p_transition := Some 1.2\<rparr>\<rparr> \<and>
   duration_of (currentScene (run (install three_scenes @ [Next]) init_state))
     = duration_of (currentScene (run (install three_scenes @ [Play, Tick 1]) init_state)) \<and>
   getTransitionVariants (run (install three_scenes @ [Next]) init_state) (Some ''swirl'')
     = getTransitionVariants (run (install three_scenes @ [Play, Tick 1]) init_state)
         (Some ''swirl'') \<and>
   getTransitionVariants (run (install three_scenes @ [Next]) init_state) (Some ''wipe'') =
     \<lparr>v_initial = \<lparr>p_x = Some (XStr ''100%''), p_scale = None, p_opacity = Some 1,
        p_filter = None, p_transition = None\<rparr>,
      v_animate = \<lparr>p_x = Some (XNum 0), p_scale = None, p_opacity = Some 1,
        p_filter = None, p_transition = Some 1.2\<rparr>,
      v_exit = \<lparr>p_x = Some (XStr ''-100%''), p_scale = None, p_opacity = Some 1,
        p_filter = None, p_transition = Some 1.2\<rparr>\<rparr> \<and>
   getTransitionVariants (run (install three_scenes @ [Next]) init_state) (Some ''pan'') =
     \<lparr>v_initial = \<lparr>p_x = Some (XNum 20), p_scale = Some 1.1, p_opacity = Some 0.9,
        p_filter = None, p_transition = None\<rparr>,
      v_animate = \<lparr>p_x = Some (XNum 0), p_scale = Some 1, p_opacity = Some 1,
        p_filter = None, p_transition = Some 1.2\<rparr>,
      v_exit = \<lparr>p_x = Some (XNum (- 15)), p_scale = Some 0.98, p_opacity = Some 0.9,
        p_filter = None, p_transition = Some 1.2\<rparr>\<rparr> \<and>
   getTransitionVariants (run (install three_scenes @ [Next]) init_state) (Some ''dolly'') =
     \<lparr>v_initial = \<lparr>p_x = None, p_scale = Some 0.9, p_opacity = Some 0,
        p_filter = None, p_transition = None\<rparr>,
      v_animate = \<lparr>p_x = None, p_scale = Some 1, p_opacity = Some 1,
        p_filter = None, p_transition = Some 1.2\<rparr>,
      v_exit = \<lparr>p_x = None, p_scale = Some 1.05, p_opacity = Some 0,
        p_filter = None, p_transition = Some 1.2\<rparr>\<rparr> \<and>
   getTransitionVariants (run (install three_scenes @ [Next]) init_state) (Some ''fade-through-black'') =
     \<lparr>v_initial = \<lparr>p_x = None, p_scale = None, p_opacity = Some 0,
        p_filter = Some ''brightness(0)'', p_transition = None\<rparr>,
      v_animate = \<lparr>p_x = None, p_scale = None, p_opacity = Some 1,
        p_filter = Some ''brightness(1)'', p_transition = Some 1.2\<rparr>,
      v_exit = \<lparr>p_x = None, p_scale = None, p_opacity = Some 0,
        p_filter = Some ''brightness(0)'', p_transition = Some 1.2\<rparr>\<rparr>"
proof -
  let ?s = "run (install three_scenes @ [Next]) init_state"
  let ?s' = "run (install three_scenes @ [Play, Tick 1]) init_state"
  have m: "Some ''swirl'' \<notin>
      {Some ''wipe'', Some ''pan'', Some ''dolly'', Some ''fade-through-black''}"
    by simp
  have d: "duration_of (currentScene ?s) = Num 1.2" by (simp add: ev)
  have d': "duration_of (currentScene ?s') = Num 1.2" by (simp add: ev)
  note sel = transition_profile_selection [of "Some ''swirl''" ?s ?s' "1.2"]
  have fb: "getTransitionVariants ?s (Some ''swirl'')
      = getTransitionVariants ?s (Some ''crossfade'')"
    using sel m by blast
  have cr: "getTransitionVariants ?s (Some ''crossfade'') =
     \<lparr>v_initial = no_props\<lparr>p_opacity := Some 0\<rparr>,
      v_animate = no_props\<lparr>p_opacity := Some 1,
        p_transition := Some (or_default (duration_of (currentScene ?s)) 0.8)\<rparr>,
      v_exit = no_props\<lparr>p_opacity := Some 0,
        p_transition := Some (or_default (duration_of (currentScene ?s)) 0.8)\<rparr>\<rparr>"
    using sel by blast
  have dd: "duration_of (currentScene ?s) = duration_of (currentScene ?s')"
    by (simp only: d d')
  have eq: "getTransitionVariants ?s (Some ''swirl'')
      = getTransitionVariants ?s' (Some ''swirl'')"
    using sel dd by blast
  have v: "getTransitionVariants ?s (Some ''swirl'') =
     \<lparr>v_initial = no_props\<lparr>p_opacity := Some 0\<rparr>,
      v_animate = no_props\<lparr>p_opacity := Some 1, p_transition := Some 1.2\<rparr>,
      v_exit = no_props\<lparr>p_opacity := Some 0, p_transition := Some 1.2\<rparr>\<rparr>"
    by (simp add: fb cr d)
  have n: "(1.2 :: real) \<noteq> 0" by simp
  have o: "or_default (duration_of (currentScene ?s)) 0.8 = 1.2" by (simp add: d)
  have wipe0: "getTransitionVariants ?s (Some ''wipe'') =
     \<lparr>v_initial = \<lparr>p_x = Some (XStr ''100%''), p_scale = None, p_opacity = Some 1,
        p_filter = None, p_transition = None\<rparr>,
      v_animate = \<lparr>p_x = Some (XNum 0), p_scale = None, p_opacity = Some 1,
        p_filter = None, p_transition = Some (or_default (duration_of (currentScene ?s)) 0.8)\<rparr>,
      v_exit = \<lparr>p_x = Some (XStr ''-100%''), p_scale = None, p_opacity = Some 1,
        p_filter = None, p_transition = Some (or_default (duration_of (currentScene ?s)) 0.8)\<rparr>\<rparr>"
    using sel by blast
  have wipe: "getTransitionVariants ?s (Some ''wipe'') =
     \<lparr>v_initial = \<lparr>p_x = Some (XStr ''100%''), p_scale = None, p_opacity = Some 1,
        p_filter = None, p_transition = None\<rparr>,
      v_animate = \<lparr>p_x = Some (XNum 0), p_scale = None, p_opacity = Some 1,
        p_filter = None, p_transition = Some 1.2\<rparr>,
      v_exit = \<lparr>p_x = Some (XStr ''-100%''), p_scale = None, p_opacity = Some 1,
        p_filter = None, p_transition = Some 1.2\<rparr>\<rparr>"
    unfolding wipe0 o by (rule refl)
  have pan0: "getTransitionVariants ?s (Some ''pan'') =
     \<lparr>v_initial = \<lparr>p_x = Some (XNum 20), p_scale = Some 1.1, p_opacity = Some 0.9,
        p_filter = None, p_transition = None\<rparr>,
      v_animate = \<lparr>p_x = Some (XNum 0), p_scale = Some 1, p_opacity = Some 1,
        p_filter = None, p_transition = Some (or_default (duration_of (currentScene ?s)) 0.8)\<rparr>,
      v_exit = \<lparr>p_x = Some (XNum (- 15)), p_scale = Some 0.98, p_opacity = Some 0.9,
        p_filter = None, p_transition = Some (or_default (duration_of (currentScene ?s)) 0.8)\<rparr>\<rparr>"
    using sel by blast
  have pan: "getTransitionVariants ?s (Some ''pan'') =
     \<lparr>v_initial = \<lparr>p_x = Some (XNum 20), p_scale = Some 1.1, p_opacity = Some 0.9,
        p_filter = None, p_transition = None\<rparr>,
      v_animate = \<lparr>p_x = Some (XNum 0), p_scale = Some 1, p_opacity = Some 1,
        p_filter = None, p_transition = Some 1.2\<rparr>,
      v_exit = \<lparr>p_x = Some (XNum (- 15)), p_scale = Some 0.98, p_opacity = Some 0.9,
        p_filter = None, p_transition = Some 1.2\<rparr>\<rparr>"
    unfolding pan0 o by (rule refl)
  have dolly0: "getTransitionVariants ?s (Some ''dolly'') =
     \<lparr>v_initial = \<lparr>p_x = None, p_scale = Some 0.9, p_opacity = Some 0,
        p_filter = None, p_transition = None\<rparr>,
      v_animate = \<lparr>p_x = None, p_scale = Some 1, p_opacity = Some 1,
        p_filter = None, p_transition = Some (or_default (duration_of (currentScene ?s)) 0.8)\<rparr>,
      v_exit = \<lparr>p_x = None, p_scale = Some 1.05, p_opacity = Some 0,
        p_filter = None, p_transition = Some (or_default (duration_of (currentScene ?s)) 0.8)\<rparr>\<rparr>"
    using sel by blast
  have dolly: "getTransitionVariants ?s (Some ''dolly'') =
     \<lparr>v_initial = \<lparr>p_x = None, p_scale = Some 0.9, p_opacity = Some 0,
        p_filter = None, p_transition = None\<rparr>,
      v_animate = \<lparr>p_x = None, p_scale = Some 1, p_opacity = Some 1,
        p_filter = None, p_transition = Some 1.2\<rparr>,
      v_exit = \<lparr>p_x = None, p_scale = Some 1.05, p_opacity = Some 0,
        p_filter = None, p_transition = Some 1.2\<rparr>\<rparr>"
    unfolding dolly0 o by (rule refl)
  have ftb0: "getTransitionVariants ?s (Some ''fade-through-black'') =
     \<lparr>v_initial = \<lparr>p_x = None, p_scale = None, p_opacity = Some 0,
        p_filter = Some ''brightness(0)'', p_transition = None\<rparr>,
      v_animate = \<lparr>p_x = None, p_scale = None, p_opacity = Some 1,
        p_filter = Some ''brightness(1)'', p_transition = Some (or_default (duration_of (currentScene ?s)) 0.8)\<rparr>,
      v_exit = \<lparr>p_x = None, p_scale = None, p_opacity = Some 0,
        p_filter = Some ''brightness(0)'', p_transition = Some (or_default (duration_of (currentScene ?s)) 0.8)\<rparr>\<rparr>"
    using sel by blast
  have ftb: "getTransitionVariants ?s (Some ''fade-through-black'') =
     \<lparr>v_initial = \<lparr>p_x = None, p_scale = None, p_opacity = Some 0,
        p_filter = Some ''brightness(0)'', p_transition = None\<rparr>,
      v_animate = \<lparr>p_x = None, p_scale = None, p_opacity = Some 1,
        p_filter = Some ''brightness(1)'', p_transition = Some 1.2\<rparr>,
      v_exit = \<lparr>p_x = None, p_scale = None, p_opacity = Some 0,
        p_filter = Some ''brightness(0)'', p_transition = Some 1.2\<rparr>\<rparr>"
    unfolding ftb0 o by (rule refl)
  show ?thesis using m d n v dd eq wipe pan dolly ftb by blast
qed

text \<open>
  C10. A current scene whose transition duration is falsy (0, \<^verbatim>\<open>null\<close> or absent) has
  delay base + 800 ms and animation duration 0.8 s, exactly as a scene of the same
  pacing whose duration is not specified at all.
\<close>

theorem zero_duration_is_default:
  assumes "currentScene s = Some sc" and "\<not> truthy (duration_of (Some sc))"
  shows "getDelayMs s = basePerSceneMs s + 800 \<and>
         p_transition (v_animate (getTransitionVariants s t)) = Some 0.8 \<and>
         p_transition (v_exit (getTransitionVariants s t)) = Some 0.8 \<and>
         (currentScene s' = Some sc' \<and> duration_of (Some sc') = Undefined \<and>
          basePerSceneMs s' = basePerSceneMs s \<longrightarrow>
            getDelayMs s = getDelayMs s' \<and>
            getTransitionVariants s t = getTransitionVariants s' t)"
proof -
  have o: "or_default (duration_of (Some sc)) 0.8 = 0.8"
    using assms(2) by (cases "duration_of (Some sc)") simp_all
  have a: "getDelayMs s = basePerSceneMs s + 800"
    using assms(1) o by (simp add: getDelayMs_def)
  have b: "p_transition (v_animate (getTransitionVariants s t)) = Some 0.8"
    using assms(1) o by (simp add: getTransitionVariants_def Let_def)
  have c: "p_transition (v_exit (getTransitionVariants s t)) = Some 0.8"
    using assms(1) o by (simp add: getTransitionVariants_def Let_def)
  have d: "currentScene s' = Some sc' \<and> duration_of (Some sc') = Undefined \<and>
          basePerSceneMs s' = basePerSceneMs s \<longrightarrow>
            getDelayMs s = getDelayMs s' \<and>
            getTransitionVariants s t = getTransitionVariants s' t"
    using assms(1) o by (simp add: getDelayMs_def getTransitionVariants_def Let_def)
  show ?thesis using a b c d by blast
qed

theorem zero_duration_is_default_witness:
  "currentScene (run (install one_scene) init_state)
     = Some (mk_scene ''s1'' ''swirl'' (Num 0) [appears ''c1'']) \<and>
   duration_of (Some (mk_scene ''s1'' ''swirl'' (Num 0) [appears ''c1''])) = Num 0 \<and>
   \<not> truthy (duration_of (Some (mk_scene ''s1'' ''swirl'' (Num 0) [appears ''c1'']))) \<and>
   currentScene (run (install bare_scene) init_state)
     = Some (mk_scene ''s1'' ''wipe'' Undefined []) \<and>
   duration_of (Some (mk_scene ''s1'' ''wipe'' Undefined [])) = Undefined \<and>
   basePerSceneMs (run (install bare_scene) init_state)
     = basePerSceneMs (run (install one_scene) init_state) \<and>
   getDelayMs (run (install one_scene) init_state) = 3600 \<and>
   getDelayMs (run (install bare_scene) init_state) = 3600 \<and>
   p_transition (v_animate (getTransitionVariants (run (install one_scene) init_state)
     (Some ''swirl''))) = Some 0.8 \<and>
   getTransitionVariants (run (install one_scene) init_state) (Some ''swirl'')
     = getTransitionVariants (run (install bare_scene) init_state) (Some ''swirl'')"
proof -
  let ?s = "run (install one_scene) init_state"
  let ?sc = "mk_scene ''s1'' ''swirl'' (Num 0) [appears ''c1'']"
  let ?s' = "run (install bare_scene) init_state"
  let ?sc' = "mk_scene ''s1'' ''wipe'' Undefined []"
  have c: "currentScene ?s = Some ?sc" by (simp add: ev)
  have z: "duration_of (Some ?sc) = Num 0" by (simp add: duration_of_def mk_scene_def)
  have f: "\<not> truthy (duration_of (Some ?sc))" by (simp add: z)
  have c': "currentScene ?s' = Some ?sc'" by (simp add: ev)
  have u: "duration_of (Some ?sc') = Undefined" by (simp add: duration_of_def mk_scene_def)
  have b: "basePerSceneMs ?s' = basePerSceneMs ?s" by (simp add: ev)
  have bn: "basePerSceneMs ?s = 2800" by (simp add: ev)
  note zd = zero_duration_is_default [OF c f, of "Some ''swirl''" ?s' ?sc']
  have g: "getDelayMs ?s = basePerSceneMs ?s + 800" using zd by blast
  have g1: "getDelayMs ?s = 3600" by (simp add: g bn)
  have pa: "p_transition (v_animate (getTransitionVariants ?s (Some ''swirl''))) = Some 0.8"
    using zd by blast
  have both: "getDelayMs ?s = getDelayMs ?s' \<and>
      getTransitionVariants ?s (Some ''swirl'') = getTransitionVariants ?s' (Some ''swirl'')"
    using zd c' u b by blast
  have g2: "getDelayMs ?s' = 3600" using both g1 by simp
  show ?thesis using c z f c' u b g1 g2 pa both by blast
qed

section \<open>Generation\<close>

text \<open>
  \<^verbatim>\<open>generate\<close> with a response that is not ok, called while the second of three scenes
  is playing: the result, the cursor and the playing flag all differ afterwards.
\<close>

theorem failed_generate_clears_counterexample:
  "failed (NotOk 500 None) \<and>
   result (run (install three_scenes @ [Next, Play]) init_state) = Some three_scenes \<and>
   idx (run (install three_scenes @ [Next, Play]) init_state) = 1 \<and>
   playing (run (install three_scenes @ [Next, Play]) init_state) = True \<and>
   result (generate (NotOk 500 None) (run (install three_scenes @ [Next, Play]) init_state))
     = None \<and>
   idx (generate (NotOk 500 None) (run (install three_scenes @ [Next, Play]) init_state)) = 0 \<and>
   playing (generate (NotOk 500 None) (run (install three_scenes @ [Next, Play]) init_state))
     = False \<and>
   error (generate (NotOk 500 None) (run (install three_scenes @ [Next, Play]) init_state))
     = ''Request failed: 500''"
  by (simp add: ev generate_def error_message_def shown_def digit_char_def)

text \<open>
  C1, as the code has it. \<^verbatim>\<open>generate\<close> clears the result and resets the player before
  it sends the request. When the request fails, whatever the state before the call, the
  result is \<^verbatim>\<open>null\<close>, the cursor is 0, auto-advance is off, the error message is shown,
  \<^verbatim>\<open>loading\<close> is off, the pacing is unchanged and no timer is pending.
\<close>

theorem failed_generate_clears:
  assumes "failed resp"
  shows "result (generate resp s) = None \<and> idx (generate resp s) = 0 \<and>
         playing (generate resp s) = False \<and>
         error (generate resp s) = error_message resp \<and>
         loading (generate resp s) = False \<and>
         pacing (generate resp s) = pacing s \<and>
         (timer_inv s \<longrightarrow> pending (generate resp s) = [])"
proof -
  let ?m = "step GenerateStart s"
  let ?h = "handler GenerateStart s"
  have hs: "result ?h = None \<and> idx ?h = 0 \<and> playing ?h = False \<and> pacing ?h = pacing s"
    by (simp add: handler_def resetPlayer_def)
  have m: "result ?m = None \<and> idx ?m = 0 \<and> playing ?m = False \<and> pacing ?m = pacing s"
    by (simp add: step_keeps hs)
  have h: "handler (GenerateDone resp) ?m = ?m\<lparr>error := error_message resp, loading := False\<rparr>"
    using assms by (cases resp) (simp_all add: handler_def)
  have a: "result (generate resp s) = None \<and> idx (generate resp s) = 0 \<and>
         playing (generate resp s) = False \<and>
         error (generate resp s) = error_message resp \<and>
         loading (generate resp s) = False \<and>
         pacing (generate resp s) = pacing s"
    by (simp add: generate_def step_keeps h hs)
  have b: "pending (generate resp s) = []" if t: "timer_inv s"
  proof -
    have tm: "timer_inv ?m" using t by (rule timer_inv_step)
    have "\<not> playing ?m" using m by simp
    with tm have pm: "pending ?m = []"
      by (auto simp: timer_inv_def split: list.splits)
    have "deps (handler (GenerateDone resp) ?m) = deps ?m"
      by (simp add: h deps_def basePerSceneMs_def)
    moreover have "\<not> fresh_result (GenerateDone resp)"
      using assms by (cases resp) simp_all
    ultimately have "step (GenerateDone resp) ?m = handler (GenerateDone resp) ?m"
      by (rule step_same_deps)
    then show ?thesis by (simp add: generate_def h pm)
  qed
  show ?thesis using a b by blast
qed

theorem failed_generate_clears_witness:
  "failed (TransportError ''Failed to fetch'') \<and>
   timer_inv (run (install three_scenes @ [Next, Play]) init_state) \<and>
   pending (run (install three_scenes @ [Next, Play]) init_state) \<noteq> [] \<and>
   result (generate (TransportError ''Failed to fetch'')
     (run (install three_scenes @ [Next, Play]) init_state)) = None \<and>
   idx (generate (TransportError ''Failed to fetch'')
     (run (install three_scenes @ [Next, Play]) init_state)) = 0 \<and>
   playing (generate (TransportError ''Failed to fetch'')
     (run (install three_scenes @ [Next, Play]) init_state)) = False \<and>
   error (generate (TransportError ''Failed to fetch'')
     (run (install three_scenes @ [Next, Play]) init_state)) = ''Failed to fetch'' \<and>
   pending (generate (TransportError ''Failed to fetch'')
     (run (install three_scenes @ [Next, Play]) init_state)) = []"
proof -
  let ?s = "run (install three_scenes @ [Next, Play]) init_state"
  have f: "failed (TransportError ''Failed to fetch'')" by simp
  have t: "timer_inv ?s" by (simp add: ev timer_inv_def)
  have p: "pending ?s \<noteq> []" by (simp add: ev)
  from failed_generate_clears [OF f, of ?s] f t p
  show ?thesis by (simp add: error_message_def)
qed

section \<open>Rendering a scene whose cast is not in the roster\<close>

text \<open>
  C2. A response whose only scene lists the characters \<^verbatim>\<open>c1\<close> and \<^verbatim>\<open>c9\<close> while the
  roster holds \<^verbatim>\<open>c1\<close> alone: the lookup of \<^verbatim>\<open>c9\<close> finds nothing, the preview player
  then throws a \<^verbatim>\<open>TypeError\<close> on \<^verbatim>\<open>base.color\<close>, and the static scene list, which reads
  the name through \<^verbatim>\<open>?.\<close>, renders the same appearance with no name.
\<close>

theorem player_render_dangling_reference:
  "currentScene (run (install dangling) init_state)
     = Some (mk_scene ''s1'' ''dolly'' (Num 0.8) [appears ''c1'', appears ''c9'']) \<and>
   find (\<lambda>c. c_id c = ''c9'') (r_characters dangling) = None \<and>
   renderPlayer (run (install dangling) init_state) = Inl TypeError \<and>
   map (listCharacter dangling) [appears ''c1'', appears ''c9''] =
     [\<lparr>li_key = ''c1'', li_name = Some ''Alice'', li_emotion = Some ''calm'',
       li_dialogue = None\<rparr>,
      \<lparr>li_key = ''c9'', li_name = None, li_emotion = Some ''calm'', li_dialogue = None\<rparr>]"
  by (simp add: ev renderPlayer_def playerCharacter_def listCharacter_def appears_def alice_def
      shown_def)

section \<open>Play\<close>

text \<open>
  Play pressed while the paused cursor is at the last of three scenes: auto-advance is on
  afterwards and one timer of 3600 ms is pending.
\<close>

theorem play_at_last_index_counterexample:
  "result (run (install three_scenes @ [Next, Next]) init_state) = Some three_scenes \<and>
   idx (run (install three_scenes @ [Next, Next]) init_state)
     = int (length (r_scenes three_scenes)) - 1 \<and>
   playing (run (install three_scenes @ [Next, Next]) init_state) = False \<and>
   pending (run (install three_scenes @ [Next, Next]) init_state) = [] \<and>
   playing (step Play (run (install three_scenes @ [Next, Next]) init_state)) = True \<and>
   pending (step Play (run (install three_scenes @ [Next, Next]) init_state))
     = [\<lparr>tm_id = 1, tm_delay = 3600, tm_result = Some three_scenes\<rparr>]"
  by (simp add: ev)

text \<open>
  C6, as the code has it. Play is never rejected: from a paused state with nothing pending
  it turns \<^verbatim>\<open>playing\<close> on and leaves cursor and result alone. It schedules exactly one
  advance, with the delay of \<^verbatim>\<open>getDelayMs\<close>, whenever there is a current scene and that
  delay is positive, the last index included; with no result or an empty sequence it
  schedules nothing.
\<close>

theorem play_schedules:
  assumes "pending s = []" and "\<not> playing s"
  shows "playing (step Play s) \<and> idx (step Play s) = idx s \<and>
         result (step Play s) = result s \<and>
         pending (step Play s) =
           (if currentScene s \<noteq> None \<and> 0 < getDelayMs s
            then [\<lparr>tm_id = next_id s, tm_delay = getDelayMs s, tm_result = result s\<rparr>]
            else []) \<and>
         (result s = None \<or> (\<exists>r. result s = Some r \<and> r_scenes r = []) \<longrightarrow>
            pending (step Play s) = [])"
proof -
  let ?h = "handler Play s"
  have h: "?h = s\<lparr>playing := True\<rparr>" by (simp add: handler_def)
  have d: "deps ?h \<noteq> deps s" using assms(2) by (simp add: h deps_def)
  have c: "pending (run_cleanup ?h) = []"
    using assms(1) by (simp add: h run_cleanup_def clearRef_def split: option.splits)
  have g: "getDelayMs ?h = getDelayMs s"
    by (simp add: h getDelayMs_def currentScene_def basePerSceneMs_def split: option.splits)
  have st: "step Play s = run_effect (run_cleanup ?h)"
    using d by (simp add: step_def Let_def)
  have cs: "(currentScene s \<noteq> None \<and> 0 < getDelayMs s) = (result s \<noteq> None \<and> 0 < getDelayMs s)"
    by (auto simp: getDelayMs_def currentScene_def split: option.splits)
  have p: "pending (step Play s) =
           (if currentScene s \<noteq> None \<and> 0 < getDelayMs s
            then [\<lparr>tm_id = next_id s, tm_delay = getDelayMs s, tm_result = result s\<rparr>]
            else [])"
    unfolding cs by (simp add: st effect_pending [OF c] cleanup_keeps g) (simp add: h)
  have e: "result s = None \<or> (\<exists>r. result s = Some r \<and> r_scenes r = []) \<longrightarrow>
            pending (step Play s) = []"
    unfolding p by (auto simp: currentScene_def split: if_splits)
  have k: "playing (step Play s) \<and> idx (step Play s) = idx s \<and> result (step Play s) = result s"
    by (simp add: step_keeps h)
  show ?thesis using k p e by blast
qed

theorem play_schedules_witness:
  "pending (run (install one_scene) init_state) = [] \<and>
   \<not> playing (run (install one_scene) init_state) \<and>
   idx (run (install one_scene) init_state) = int (length (r_scenes one_scene)) - 1 \<and>
   currentScene (run (install one_scene) init_state) \<noteq> None \<and>
   0 < getDelayMs (run (install one_scene) init_state) \<and>
   playing (step Play (run (install one_scene) init_state)) \<and>
   pending (step Play (run (install one_scene) init_state))
     = [\<lparr>tm_id = 1, tm_delay = 3600, tm_result = Some one_scene\<rparr>]"
proof -
  let ?s = "run (install one_scene) init_state"
  have p: "pending ?s = []" by (simp add: ev)
  have q: "\<not> playing ?s" by (simp add: ev)
  have i: "idx ?s = int (length (r_scenes one_scene)) - 1" by (simp add: ev)
  have c: "currentScene ?s \<noteq> None" by (simp add: ev)
  have g: "getDelayMs ?s = 3600" by (simp add: ev)
  have n: "next_id ?s = 1" by (simp add: ev)
  have r: "result ?s = Some one_scene" by (simp add: ev)
  note ps = play_schedules [OF p q]
  have pl: "playing (step Play ?s)" using ps by blast
  have "pending (step Play ?s) =
           (if currentScene ?s \<noteq> None \<and> 0 < getDelayMs ?s
            then [\<lparr>tm_id = next_id ?s, tm_delay = getDelayMs ?s, tm_result = result ?s\<rparr>]
            else [])"
    using ps by blast
  then have pe: "pending (step Play ?s)
     = [\<lparr>tm_id = 1, tm_delay = 3600, tm_result = Some one_scene\<rparr>]"
    by (simp add: c g n r)
  have g0: "0 < getDelayMs ?s" by (simp add: g)
  show ?thesis using p q i c g0 pl pe by blast
qed

section \<open>Pending timers\<close>

lemma handler_pending:
  "timer_inv s \<Longrightarrow> pending (handler a s) = pending s \<or> pending (handler a s) = []"
  by (cases a)
    (auto simp: timer_inv_def handler_def onTick_def resetPlayer_def Let_def
      split: list.splits option.splits response.splits if_splits)

lemma step_pending_cases:
  assumes "timer_inv s"
  shows "pending (step a s) = pending s \<or> pending (step a s) = [] \<or>
     (\<exists>d. pending (step a s)
        = [\<lparr>tm_id = next_id s, tm_delay = d, tm_result = result (step a s)\<rparr>])"
proof (cases "deps (handler a s) \<noteq> deps s \<or> fresh_result a")
  case True
  show ?thesis
    unfolding step_pending_changed [OF assms True] by (simp add: step_keeps)
next
  case False
  then have "step a s = handler a s" by (simp add: step_same_deps)
  with handler_pending [OF assms, of a] show ?thesis by auto
qed

lemma pending_ids_below:
  "timer_inv s \<Longrightarrow> tm \<in> set (pending s) \<Longrightarrow> tm_id tm < next_id s"
  by (auto simp: timer_inv_def split: list.splits option.splits)

lemma pending_at_most_one: "timer_inv s \<Longrightarrow> length (pending s) \<le> 1"
  by (auto simp: timer_inv_def split: list.splits)

lemma stale_tick:
  assumes "t \<notin> tm_id ` set (pending s)"
  shows "step (Tick t) s = s"
proof -
  have "find (\<lambda>tm. tm_id tm = t) (pending s) = None"
    using assms by (auto simp: find_None_iff)
  then have "handler (Tick t) s = s" by (simp add: handler_def)
  then show ?thesis by (simp add: step_def Let_def)
qed

text \<open>
  C7. In every state the component can reach there is at most one pending timer. Every
  event leaves the pending timer as it is, or cancels it, or replaces it with exactly one
  timer under an id never handed out before; ids of pending timers are below the next
  id; and a timer that is not pending (it was cancelled or has fired) does nothing when
  its id comes up. Play followed by next, next, previous leaves one timer each time, the
  fourth one at the end.
\<close>

theorem at_most_one_pending:
  "length (pending (run as init_state)) \<le> 1 \<and>
   (pending (step a (run as init_state)) = pending (run as init_state) \<or>
    pending (step a (run as init_state)) = [] \<or>
    (\<exists>d. pending (step a (run as init_state)) =
       [\<lparr>tm_id = next_id (run as init_state), tm_delay = d,
         tm_result = result (step a (run as init_state))\<rparr>])) \<and>
   (\<forall>tm \<in> set (pending (run as init_state)). tm_id tm < next_id (run as init_state)) \<and>
   (t \<notin> tm_id ` set (pending (run as init_state)) \<longrightarrow>
      step (Tick t) (run as init_state) = run as init_state) \<and>
   map tm_id (pending (run (install three_scenes @ [Play]) init_state)) = [1] \<and>
   map tm_id (pending (run (install three_scenes @ [Play, Next]) init_state)) = [2] \<and>
   map tm_id (pending (run (install three_scenes @ [Play, Next, Next]) init_state)) = [3] \<and>
   map tm_id (pending (run (install three_scenes @ [Play, Next, Next, Prev]) init_state)) = [4]"
proof -
  let ?s = "run as init_state"
  have t: "timer_inv ?s" by (simp add: inv_reachable)
  have a: "length (pending ?s) \<le> 1" using t by (rule pending_at_most_one)
  have b: "pending (step a ?s) = pending ?s \<or> pending (step a ?s) = [] \<or>
    (\<exists>d. pending (step a ?s) =
       [\<lparr>tm_id = next_id ?s, tm_delay = d, tm_result = result (step a ?s)\<rparr>])"
    using t by (rule step_pending_cases)
  have c: "\<forall>tm \<in> set (pending ?s). tm_id tm < next_id ?s"
    using t by (auto dest: pending_ids_below)
  have d: "t \<notin> tm_id ` set (pending ?s) \<longrightarrow> step (Tick t) ?s = ?s"
    by (simp add: stale_tick)
  have e1: "map tm_id (pending (run (install three_scenes @ [Play]) init_state)) = [1]"
    by (simp add: ev)
  have e2: "map tm_id (pending (run (install three_scenes @ [Play, Next]) init_state)) = [2]"
    by (simp add: ev)
  have e3: "map tm_id (pending (run (install three_scenes @ [Play, Next, Next]) init_state))
     = [3]"
    by (simp add: ev)
  have e4: "map tm_id (pending (run (install three_scenes @ [Play, Next, Next, Prev])
     init_state)) = [4]"
    by (simp add: ev)
  show ?thesis using a b c d e1 e2 e3 e4 by blast
qed

theorem at_most_one_pending_witness:
  "map tm_id (pending (run (install three_scenes @ [Play, Next]) init_state)) = [2] \<and>
   next_id (run (install three_scenes @ [Play, Next]) init_state) = 3 \<and>
   length (pending (run (install three_scenes @ [Play, Next]) init_state)) = 1 \<and>
   1 \<notin> tm_id ` set (pending (run (install three_scenes @ [Play, Next]) init_state)) \<and>
   step (Tick 1) (run (install three_scenes @ [Play, Next]) init_state)
     = run (install three_scenes @ [Play, Next]) init_state"
proof -
  let ?s = "run (install three_scenes @ [Play, Next]) init_state"
  have i: "map tm_id (pending ?s) = [2]" by (simp add: ev)
  have n: "next_id ?s = 3" by (simp add: ev)
  have l: "length (pending ?s) = 1" by (simp add: ev)
  have m: "1 \<notin> tm_id ` set (pending ?s)" by (simp add: ev)
  note one = at_most_one_pending [of "install three_scenes @ [Play, Next]" Next 1]
  have f: "step (Tick 1) ?s = ?s" using one m by blast
  show ?thesis using i n l m f by blast
qed

text \<open>
  Previous pressed at the first scene while playing: the cursor stays 0, the timer
  scheduled by play (id 1) is still the pending one and no new id has been handed out.
\<close>

theorem previous_at_first_counterexample:
  "playing (run (install three_scenes @ [Play]) init_state) = True \<and>
   idx (run (install three_scenes @ [Play]) init_state) = 0 \<and>
   idx (step Prev (run (install three_scenes @ [Play]) init_state)) = 0 \<and>
   pending (run (install three_scenes @ [Play]) init_state)
     = [\<lparr>tm_id = 1, tm_delay = 3600, tm_result = Some three_scenes\<rparr>] \<and>
   pending (step Prev (run (install three_scenes @ [Play]) init_state))
     = [\<lparr>tm_id = 1, tm_delay = 3600, tm_result = Some three_scenes\<rparr>] \<and>
   next_id (step Prev (run (install three_scenes @ [Play]) init_state)) = 2"
  by (simp add: ev)

lemma getDelayMs_eqI:
  "pacing s' = pacing s \<Longrightarrow> result s' = result s \<Longrightarrow> idx s' = idx s \<Longrightarrow>
   getDelayMs s' = getDelayMs s"
  by (simp add: getDelayMs_def currentScene_def basePerSceneMs_def split: option.splits)

lemma getDelayMs_step: "getDelayMs (step a s) = getDelayMs (handler a s)"
  by (rule getDelayMs_eqI) (simp_all add: step_keeps)

text \<open>
  C8, as the code has it. Next or previous pressed while playing keeps auto-advance on.
  When it changes the cursor, every timer pending before is cancelled and one fresh timer
  is scheduled with the delay of the new current scene (none if that delay is not
  positive). When the clamped cursor equals the old one, the state is unchanged: the
  pending timer keeps running.
\<close>

theorem navigation_reschedules:
  assumes "timer_inv s" and "playing s" and "a = Next \<or> a = Prev"
  shows "playing (step a s) \<and> idx (step a s) = idx (handler a s) \<and>
         (idx (handler a s) \<noteq> idx s \<longrightarrow>
            pending (step a s) =
              (if result s \<noteq> None \<and> 0 < getDelayMs (step a s)
               then [\<lparr>tm_id = next_id s, tm_delay = getDelayMs (step a s),
                      tm_result = result s\<rparr>]
               else []) \<and>
            (\<forall>tm \<in> set (pending s). tm \<notin> set (pending (step a s)))) \<and>
         (idx (handler a s) = idx s \<longrightarrow> step a s = s)"
proof -
  have k: "playing (handler a s) \<and> result (handler a s) = result s"
    using assms(2,3) by (auto simp: handler_def)
  have pl: "playing (step a s) \<and> idx (step a s) = idx (handler a s)"
    using k by (simp add: step_keeps)
  have ch: "pending (step a s) =
              (if result s \<noteq> None \<and> 0 < getDelayMs (step a s)
               then [\<lparr>tm_id = next_id s, tm_delay = getDelayMs (step a s),
                      tm_result = result s\<rparr>]
               else []) \<and>
            (\<forall>tm \<in> set (pending s). tm \<notin> set (pending (step a s)))"
    if d: "idx (handler a s) \<noteq> idx s"
  proof -
    have "deps (handler a s) \<noteq> deps s \<or> fresh_result a"
      using d by (simp add: deps_def)
    from step_pending_changed [OF assms(1) this]
    have p: "pending (step a s) =
              (if result s \<noteq> None \<and> 0 < getDelayMs (step a s)
               then [\<lparr>tm_id = next_id s, tm_delay = getDelayMs (step a s),
                      tm_result = result s\<rparr>]
               else [])"
      by (simp add: k getDelayMs_step)
    have "tm \<notin> set (pending (step a s))" if m: "tm \<in> set (pending s)" for tm
    proof -
      have "tm_id tm < next_id s" using assms(1) m by (rule pending_ids_below)
      then show ?thesis unfolding p by auto
    qed
    with p show ?thesis by blast
  qed
  have same: "step a s = s" if e: "idx (handler a s) = idx s"
  proof -
    have hs: "handler a s = s" using assms(3) e by (auto simp: handler_def)
    have nf: "\<not> fresh_result a" using assms(3) by auto
    have "step a s = handler a s" using nf by (simp add: step_same_deps hs)
    then show ?thesis by (simp add: hs)
  qed
  show ?thesis using pl ch same by blast
qed

theorem navigation_reschedules_witness:
  "timer_inv (run (install three_scenes @ [Play]) init_state) \<and>
   playing (run (install three_scenes @ [Play]) init_state) \<and>
   idx (run (install three_scenes @ [Play]) init_state) = 0 \<and>
   idx (handler Next (run (install three_scenes @ [Play]) init_state)) = 1 \<and>
   pending (run (install three_scenes @ [Play]) init_state)
     = [\<lparr>tm_id = 1, tm_delay = 3600, tm_result = Some three_scenes\<rparr>] \<and>
   pending (step Next (run (install three_scenes @ [Play]) init_state))
     = [\<lparr>tm_id = 2, tm_delay = 4000, tm_result = Some three_scenes\<rparr>] \<and>
   idx (handler Prev (run (install three_scenes @ [Play]) init_state)) = 0 \<and>
   step Prev (run (install three_scenes @ [Play]) init_state)
     = run (install three_scenes @ [Play]) init_state"
proof -
  let ?s = "run (install three_scenes @ [Play]) init_state"
  have t: "timer_inv ?s" by (simp add: ev timer_inv_def)
  have q: "playing ?s" by (simp add: ev)
  have i: "idx ?s = 0" by (simp add: ev)
  have j: "idx (handler Next ?s) = 1" by (simp add: ev)
  have d: "idx (handler Next ?s) \<noteq> idx ?s" by (simp add: i j)
  have p: "pending ?s = [\<lparr>tm_id = 1, tm_delay = 3600, tm_result = Some three_scenes\<rparr>]"
    by (simp add: ev)
  have r: "result ?s = Some three_scenes" by (simp add: ev)
  have n: "next_id ?s = 2" by (simp add: ev)
  have g: "getDelayMs (step Next ?s) = 4000" by (simp add: ev)
  have ab: "Next = Next \<or> Next = Prev" by simp
  note nav = navigation_reschedules [OF t q ab]
  have "pending (step Next ?s) =
      (if result ?s \<noteq> None \<and> 0 < getDelayMs (step Next ?s)
       then [\<lparr>tm_id = next_id ?s, tm_delay = getDelayMs (step Next ?s),
              tm_result = result ?s\<rparr>]
       else [])"
    using nav d by blast
  then have pe: "pending (step Next ?s)
     = [\<lparr>tm_id = 2, tm_delay = 4000, tm_result = Some three_scenes\<rparr>]"
    by (simp add: r n g)
  have j0: "idx (handler Prev ?s) = 0" by (simp add: ev)
  have e: "idx (handler Prev ?s) = idx ?s" by (simp add: i j0)
  have pv: "Prev = Next \<or> Prev = Prev" by simp
  have same: "step Prev ?s = ?s"
    using navigation_reschedules [OF t q pv] e by blast
  show ?thesis using t q i j p pe j0 same by blast
qed

end
